theory Spec2Isabelle
  imports Complex_Main "HOL-Library.AList"
begin

section \<open>Python values\<close>

text \<open>
  The service of \<^verbatim>\<open>backend/main.py\<close> is dynamically typed: what \<^verbatim>\<open>json.loads\<close> returns
  for a completion of the language model is an arbitrary JSON value, and the code applies
  \<^verbatim>\<open>.get\<close>, \<^verbatim>\<open>len\<close>, \<^verbatim>\<open>/\<close> and \<^verbatim>\<open>min\<close> to it. The values are therefore a datatype, and every
  operation that raises on the wrong kind of value returns a sum with the exception on the
  left.

  Python's \<^verbatim>\<open>int\<close> is \<^typ>\<open>int\<close>. Python's \<^verbatim>\<open>float\<close> is modelled by the exact rationals
  \<^typ>\<open>rat\<close>: the literals \<^verbatim>\<open>0.1\<close>, \<^verbatim>\<open>0.2\<close> and \<^verbatim>\<open>1.5\<close> are \<open>1/10\<close>, \<open>2/10\<close> and \<open>3/2\<close>, the
  arithmetic is exact, and the non-finite floats and the rounding of binary64 are outside
  the model. A \<^verbatim>\<open>str\<close> is a \<^typ>\<open>string\<close>, a \<^verbatim>\<open>dict\<close> with string keys an association list
  in insertion order.
\<close>

datatype pyval =
    PNone
  | PBool bool
  | PInt int
  | PFloat rat
  | PStr string
  | PList "pyval list"
  | PDict "(string \<times> pyval) list"

type_synonym pydict = "(string \<times> pyval) list"

datatype py_exception =
    HTTPException int string
  | TypeError
  | AttributeError
  | KeyError
  | ZeroDivisionError
  | JSONDecodeError
  | ValidationError
  | RequestException

text \<open>\<^verbatim>\<open>d.get(k, default)\<close> and \<^verbatim>\<open>d[k] = v\<close> on a dict.\<close>

definition dict_get :: "('k \<times> 'v) list \<Rightarrow> 'k \<Rightarrow> 'v \<Rightarrow> 'v" where
  "dict_get d k dflt = (case map_of d k of None \<Rightarrow> dflt | Some v \<Rightarrow> v)"

definition dict_set :: "('k \<times> 'v) list \<Rightarrow> 'k \<Rightarrow> 'v \<Rightarrow> ('k \<times> 'v) list" where
  "dict_set d k v = AList.update k v d"

text \<open>The number a value stands for in arithmetic (\<^verbatim>\<open>bool\<close> is a subclass of \<^verbatim>\<open>int\<close>).\<close>

fun as_number :: "pyval \<Rightarrow> rat option" where
  "as_number (PBool b) = Some (if b then 1 else 0)"
| "as_number (PInt i) = Some (of_int i)"
| "as_number (PFloat r) = Some r"
| "as_number _ = None"

text \<open>\<^verbatim>\<open>len(v)\<close>: defined on strings, lists and dicts, a \<^verbatim>\<open>TypeError\<close> elsewhere.\<close>

fun py_len :: "pyval \<Rightarrow> py_exception + int" where
  "py_len (PStr s) = Inr (int (length s))"
| "py_len (PList xs) = Inr (int (length xs))"
| "py_len (PDict d) = Inr (int (length (remdups (map fst d))))"
| "py_len _ = Inl TypeError"

text \<open>
  \<^verbatim>\<open>round(x, n)\<close> on a float rounds to the nearest multiple of \<open>10\<^sup>-\<^sup>n\<close>, a tie going to the
  even neighbour.
\<close>

definition round_half_even :: "rat \<Rightarrow> int" where
  "round_half_even x =
     (let f = \<lfloor>x\<rfloor>; d = x - of_int f
      in if d < 1 / 2 then f
         else if 1 / 2 < d then f + 1
         else if even f then f else f + 1)"

definition py_round :: "rat \<Rightarrow> nat \<Rightarrow> rat" where
  "py_round x ndigits = of_int (round_half_even (x * 10 ^ ndigits)) / 10 ^ ndigits"

text \<open>\<^verbatim>\<open>a / b\<close> on floats raises on a zero divisor.\<close>

definition py_truediv :: "rat \<Rightarrow> rat \<Rightarrow> py_exception + rat" where
  "py_truediv a b = (if b = 0 then Inl ZeroDivisionError else Inr (a / b))"

text \<open>
  \<^verbatim>\<open>min(10, v)\<close> returns its first argument unless the second is smaller, and compares with
  \<^verbatim>\<open><\<close>, which raises a \<^verbatim>\<open>TypeError\<close> between an \<^verbatim>\<open>int\<close> and a value that is not a number.
\<close>

definition py_min_10 :: "pyval \<Rightarrow> py_exception + pyval" where
  "py_min_10 v =
     (case as_number v of
        None \<Rightarrow> Inl TypeError
      | Some r \<Rightarrow> Inr (if r < 10 then v else PInt 10))"

section \<open>Strings\<close>

text \<open>The characters \<^verbatim>\<open>str.strip()\<close> removes, among the code points below 256.\<close>

definition isspace :: "char \<Rightarrow> bool" where
  "isspace c = ((of_char c :: nat) \<in> {9, 10, 11, 12, 13, 28, 29, 30, 31, 32, 133, 160})"

definition py_strip :: "string \<Rightarrow> string" where
  "py_strip s = rev (dropWhile isspace (rev (dropWhile isspace s)))"

definition startswith :: "string \<Rightarrow> string \<Rightarrow> bool" where
  "startswith s p = (take (length p) s = p)"

definition endswith :: "string \<Rightarrow> string \<Rightarrow> bool" where
  "endswith s p = (length p \<le> length s \<and> drop (length s - length p) s = p)"

text \<open>\<^verbatim>\<open>s.find(c)\<close> and \<^verbatim>\<open>s.rfind(c)\<close> for a single character: an index, or \<open>-1\<close>.\<close>

definition py_find :: "string \<Rightarrow> char \<Rightarrow> int" where
  "py_find s c =
     (if c \<in> set s then int (length (takeWhile (\<lambda>x. x \<noteq> c) s)) else - 1)"

definition py_rfind :: "string \<Rightarrow> char \<Rightarrow> int" where
  "py_rfind s c =
     (if c \<in> set s
      then int (length s) - 1 - int (length (takeWhile (\<lambda>x. x \<noteq> c) (rev s)))
      else - 1)"

text \<open>\<^verbatim>\<open>s[i:j]\<close> for \<open>0 \<le> i\<close> and \<open>0 \<le> j\<close>.\<close>

definition py_slice :: "string \<Rightarrow> int \<Rightarrow> int \<Rightarrow> string" where
  "py_slice s i j = take (nat j - nat i) (drop (nat i) s)"

section \<open>The data model\<close>

text \<open>
  The fields of the request and of the response carry the prefixes \<open>req_\<close> and \<open>resp_\<close>:
  \<^verbatim>\<open>text\<close> is a keyword here, and \<^verbatim>\<open>industry\<close> and \<^verbatim>\<open>analysis\<close> are also the names of
  parameters and local variables of the functions below.
\<close>

record StoryRequest =
  req_text :: string
  req_industry :: string
  req_style :: string

record SceneElement =
  elem_type :: string
  name :: string
  description :: string
  position :: "(string \<times> rat) list"
  scale :: "(string \<times> rat) list"

record StoryAnalysis =
  characters :: "string list"
  setting :: string
  objects :: "string list"
  mood :: string
  actions :: "string list"
  complexity_score :: rat
  estimated_render_cost :: rat

record SceneComposition =
  scene_id :: string
  elements :: "SceneElement list"
  camera_angles :: "(string \<times> (string \<times> rat) list) list list"
  lighting :: "(string \<times> pyval) list"

record AnalysisResponse =
  resp_success :: bool
  resp_analysis :: StoryAnalysis
  resp_engine :: string
  resp_industry :: string
  resp_cost_savings :: rat

section \<open>The cost estimate\<close>

definition base_costs :: "(string \<times> int) list" where
  "base_costs =
     [(''gaming'', 5000), (''education'', 3000), (''architecture'', 8000), (''ecommerce'', 2000)]"

definition calculate_cost_estimate :: "pydict \<Rightarrow> string \<Rightarrow> py_exception + rat" where
  "calculate_cost_estimate analysis industry =
     (let complexity = dict_get analysis ''complexity_score'' (PInt 5) in
      case py_len (dict_get analysis ''characters'' (PList [])) of
        Inl e \<Rightarrow> Inl e
      | Inr character_count \<Rightarrow>
      (case py_len (dict_get analysis ''objects'' (PList [])) of
        Inl e \<Rightarrow> Inl e
      | Inr object_count \<Rightarrow>
      (let base_cost = dict_get base_costs industry 3000 in
       case as_number complexity of
         None \<Rightarrow> Inl TypeError
       | Some c \<Rightarrow>
          (let adjusted_cost =
                 of_int base_cost * (c / 5) * (1 + of_int (character_count + object_count) * (1 / 10));
               our_cost = adjusted_cost * (2 / 10)
           in Inr (py_round our_cost 2)))))"

section \<open>Library behaviour\<close>

text \<open>
  Three functions the service calls are library code: \<^verbatim>\<open>json.loads\<close> and the coercions the
  validating constructor of a \<^verbatim>\<open>pydantic.BaseModel\<close> applies to a value that does not have
  the declared type of its field (a number given for a \<^verbatim>\<open>str\<close>, a numeric string given for a
  \<^verbatim>\<open>float\<close>), which differ between the versions of that library. They are parameters of the
  model, so that every theorem below holds whatever they do: \<open>json_loads\<close> returns \<open>None\<close>
  where \<^verbatim>\<open>json.loads\<close> raises, and \<open>lax_str\<close> and \<open>lax_float\<close> return \<open>None\<close> where the
  constructor rejects the value.
\<close>

record pylib =
  json_loads :: "string \<Rightarrow> pyval option"
  lax_str :: "pyval \<Rightarrow> string option"
  lax_float :: "pyval \<Rightarrow> rat option"

text \<open>
  What the call \<^verbatim>\<open>requests.post(...)\<close> of one invocation comes back with: an exception
  (no connection, timeout), or a response with its status code and what \<^verbatim>\<open>response.json()\<close>
  returns for its body (\<open>None\<close> where that raises). The reply of the external service is an
  input of the model; the prompt sent to it plays no part in what the code does with the reply.
\<close>

datatype http_reply =
    RequestFailed
  | HttpResponse int "pyval option"

section \<open>Cleaning the completion\<close>

text \<open>Lines 165 to 169, the two tests that remove the markers of a code block.\<close>

definition remove_code_blocks :: "string \<Rightarrow> string" where
  "remove_code_blocks json_str =
     (let json_str = (if startswith json_str ''```json'' then drop 7 json_str else json_str)
      in if endswith json_str ''```'' then take (length json_str - 3) json_str else json_str)"

text \<open>
  \<^verbatim>\<open>_clean_json_response\<close>. The bare \<^verbatim>\<open>raise\<close> re-raises what \<^verbatim>\<open>json.loads\<close> raised; the slice
  is returned without a second parse.
\<close>

definition clean_json_response :: "pylib \<Rightarrow> string \<Rightarrow> py_exception + string" where
  "clean_json_response lib response_text =
     (let json_str = remove_code_blocks (py_strip response_text)
      in case json_loads lib json_str of
           Some _ \<Rightarrow> Inr json_str
         | None \<Rightarrow>
            (let start = py_find json_str CHR ''{'';
                 end = py_rfind json_str CHR ''}'' + 1
             in if 0 \<le> start \<and> start < end then Inr (py_slice json_str start end)
                else Inl JSONDecodeError))"

text \<open>
  Lines 143 and 144 of \<^verbatim>\<open>analyze_with_llama\<close>: the cleaned string is parsed by the caller,
  which is where the slice is parsed for the first time.
\<close>

definition load_completion :: "pylib \<Rightarrow> string \<Rightarrow> py_exception + pyval" where
  "load_completion lib response_text =
     (case clean_json_response lib response_text of
        Inl e \<Rightarrow> Inl e
      | Inr json_str \<Rightarrow>
         (case json_loads lib json_str of
            None \<Rightarrow> Inl JSONDecodeError
          | Some v \<Rightarrow> Inr v))"

section \<open>The analysis\<close>

text \<open>\<^verbatim>\<open>v[k]\<close> with a string key: only a dict has one.\<close>

fun py_getitem :: "pyval \<Rightarrow> string \<Rightarrow> py_exception + pyval" where
  "py_getitem (PDict d) k = (case map_of d k of None \<Rightarrow> Inl KeyError | Some v \<Rightarrow> Inr v)"
| "py_getitem _ k = Inl TypeError"

text \<open>
  The branch of \<^verbatim>\<open>analyze_with_llama\<close> for status 200, lines 142 to 151. A value without the
  method called on it (\<^verbatim>\<open>.strip\<close> on what is not a string, \<^verbatim>\<open>.get\<close> on what is not a dict)
  raises an \<^verbatim>\<open>AttributeError\<close>. The cost is computed before the score is capped.
\<close>

definition llama_analysis :: "pylib \<Rightarrow> pyval option \<Rightarrow> string \<Rightarrow> py_exception + pydict" where
  "llama_analysis lib body industry =
     (case body of
        None \<Rightarrow> Inl JSONDecodeError
      | Some result \<Rightarrow>
     (case py_getitem result ''response'' of
        Inl e \<Rightarrow> Inl e
      | Inr (PStr response_text) \<Rightarrow>
         (case load_completion lib response_text of
            Inl e \<Rightarrow> Inl e
          | Inr (PDict analysis) \<Rightarrow>
             (case calculate_cost_estimate analysis industry of
                Inl e \<Rightarrow> Inl e
              | Inr cost \<Rightarrow>
                 (let analysis = dict_set analysis ''estimated_render_cost'' (PFloat cost)
                  in case py_min_10 (dict_get analysis ''complexity_score'' (PInt 5)) of
                       Inl e \<Rightarrow> Inl e
                     | Inr capped \<Rightarrow> Inr (dict_set analysis ''complexity_score'' capped)))
          | Inr _ \<Rightarrow> Inl AttributeError)
      | Inr _ \<Rightarrow> Inl AttributeError))"

text \<open>
  \<^verbatim>\<open>analyze_with_llama\<close>: \<open>None\<close> for a status other than 200 and for every exception of the
  \<^verbatim>\<open>try\<close> block, the request's own included.
\<close>

definition analyze_with_llama :: "pylib \<Rightarrow> http_reply \<Rightarrow> string \<Rightarrow> string \<Rightarrow> pydict option" where
  "analyze_with_llama lib reply story_text industry =
     (case reply of
        RequestFailed \<Rightarrow> None
      | HttpResponse status_code body \<Rightarrow>
          if status_code = 200
          then (case llama_analysis lib body industry of
                  Inl e \<Rightarrow> None
                | Inr analysis \<Rightarrow> Some analysis)
          else None)"

text \<open>
  \<^verbatim>\<open>get_fallback_analysis\<close>. The lower-cased text is computed and never read; \<^verbatim>\<open>extend\<close>
  appends to the list of the literal.
\<close>

definition get_fallback_analysis :: "string \<Rightarrow> string \<Rightarrow> pydict" where
  "get_fallback_analysis story_text industry =
     (let base_objects = [PStr ''sword'', PStr ''treasure chest'', PStr ''magic crystal''];
          analysis =
            [(''characters'', PList [PStr ''knight'', PStr ''dragon'']),
             (''setting'', PStr ''ancient castle courtyard''),
             (''objects'', PList base_objects),
             (''mood'', PStr ''epic and dramatic''),
             (''actions'', PList [PStr ''confronting'', PStr ''guarding'', PStr ''observing'']),
             (''complexity_score'', PFloat 7.5),
             (''estimated_render_cost'', PFloat 1500)]
      in if industry = ''education''
         then dict_set
                (dict_set analysis ''objects''
                   (PList (base_objects @ [PStr ''educational diagram'', PStr ''information panel''])))
                ''mood'' (PStr ''informative and clear'')
         else if industry = ''architecture''
         then dict_set
                (dict_set analysis ''setting'' (PStr ''modern architectural space''))
                ''objects'' (PList [PStr ''building model'', PStr ''blueprint'', PStr ''scale figure''])
         else analysis)"

section \<open>Validation of an analysis\<close>

text \<open>
  \<^verbatim>\<open>StoryAnalysis(**analysis_data)\<close>: every declared field is required, a value of the declared
  type is taken as it is (a number, \<^verbatim>\<open>bool\<close> included, for a \<^verbatim>\<open>float\<close>), any other value goes
  through the library's coercion, and keys that are not fields are ignored.
\<close>

definition str_field :: "pylib \<Rightarrow> pyval \<Rightarrow> string option" where
  "str_field lib v = (case v of PStr s \<Rightarrow> Some s | _ \<Rightarrow> lax_str lib v)"

definition float_field :: "pylib \<Rightarrow> pyval \<Rightarrow> rat option" where
  "float_field lib v = (case as_number v of Some r \<Rightarrow> Some r | None \<Rightarrow> lax_float lib v)"

definition str_list_field :: "pylib \<Rightarrow> pyval \<Rightarrow> string list option" where
  "str_list_field lib v = (case v of PList xs \<Rightarrow> those (map (str_field lib) xs) | _ \<Rightarrow> None)"

definition StoryAnalysis_init :: "pylib \<Rightarrow> pydict \<Rightarrow> py_exception + StoryAnalysis" where
  "StoryAnalysis_init lib d =
     (case (Option.bind (map_of d ''characters'') (str_list_field lib),
            Option.bind (map_of d ''setting'') (str_field lib),
            Option.bind (map_of d ''objects'') (str_list_field lib),
            Option.bind (map_of d ''mood'') (str_field lib),
            Option.bind (map_of d ''actions'') (str_list_field lib),
            Option.bind (map_of d ''complexity_score'') (float_field lib),
            Option.bind (map_of d ''estimated_render_cost'') (float_field lib)) of
        (Some cs, Some st, Some os, Some m, Some acts, Some c, Some r) \<Rightarrow>
          Inr \<lparr>characters = cs, setting = st, objects = os, mood = m, actions = acts,
               complexity_score = c, estimated_render_cost = r\<rparr>
      | _ \<Rightarrow> Inl ValidationError)"

section \<open>The business tracker\<close>

text \<open>
  The dict \<^verbatim>\<open>api_calls\<close> has the three keys of its literal for the whole life of the
  process, so it is a record of three counters.
\<close>

record api_calls_dict =
  analyze :: int
  generate_3d :: int
  scene_view :: int

record BusinessTracker =
  scenes_generated :: int
  api_calls :: api_calls_dict
  total_cost_savings :: rat

definition BusinessTracker_init :: BusinessTracker where
  "BusinessTracker_init =
     \<lparr>scenes_generated = 0,
      api_calls = \<lparr>analyze = 0, generate_3d = 0, scene_view = 0\<rparr>,
      total_cost_savings = 0\<rparr>"

definition track_analysis :: "BusinessTracker \<Rightarrow> rat \<Rightarrow> BusinessTracker" where
  "track_analysis self cost_savings =
     self\<lparr>api_calls := (api_calls self)\<lparr>analyze := analyze (api_calls self) + 1\<rparr>,
          total_cost_savings := total_cost_savings self + cost_savings\<rparr>"

definition track_generation :: "BusinessTracker \<Rightarrow> BusinessTracker" where
  "track_generation self =
     self\<lparr>api_calls := (api_calls self)\<lparr>generate_3d := generate_3d (api_calls self) + 1\<rparr>,
          scenes_generated := scenes_generated self + 1\<rparr>"

record BusinessMetrics =
  total_scenes_generated :: int
  api_usage :: api_calls_dict
  cost_savings :: "(string \<times> rat) list"

definition get_metrics :: "BusinessTracker \<Rightarrow> py_exception + BusinessMetrics" where
  "get_metrics self =
     (case py_truediv (total_cost_savings self) (of_int (max 1 (scenes_generated self))) of
        Inl e \<Rightarrow> Inl e
      | Inr average \<Rightarrow>
          Inr \<lparr>total_scenes_generated = scenes_generated self,
               api_usage = api_calls self,
               cost_savings =
                 [(''total_saved'', py_round (total_cost_savings self) 2),
                  (''average_per_scene'', py_round average 2)]\<rparr>)"

section \<open>The endpoint \<^verbatim>\<open>/api/analyze\<close>\<close>

text \<open>
  The body of the \<^verbatim>\<open>try\<close> block of \<^verbatim>\<open>analyze_story\<close>, lines 373 to 400, after the text has been
  stripped: an exception on the left, the tracker after the call and the response on the
  right. The tracker is global in the source and passed here. An empty dict is as false as
  \<^verbatim>\<open>None\<close> in the test of line 382.
\<close>

definition analyze_story_try ::
  "pylib \<Rightarrow> http_reply \<Rightarrow> BusinessTracker \<Rightarrow> StoryRequest \<Rightarrow> string
     \<Rightarrow> py_exception + BusinessTracker \<times> AnalysisResponse" where
  "analyze_story_try lib reply tracker request story_text =
     (if story_text = []
      then Inl (HTTPException 400 ''No story text provided'')
      else
        let (analysis_data, engine) =
              (case analyze_with_llama lib reply story_text (req_industry request) of
                 None \<Rightarrow>
                   (get_fallback_analysis story_text (req_industry request), ''fallback'')
               | Some data \<Rightarrow>
                   if data = []
                   then (get_fallback_analysis story_text (req_industry request), ''fallback'')
                   else (data, ''llama_enhanced''))
        in case StoryAnalysis_init lib analysis_data of
             Inl e \<Rightarrow> Inl e
           | Inr analysis \<Rightarrow>
               Inr (track_analysis tracker (estimated_render_cost analysis),
                    \<lparr>resp_success = True, resp_analysis = analysis, resp_engine = engine,
                     resp_industry = req_industry request,
                     resp_cost_savings = estimated_render_cost analysis\<rparr>))"

text \<open>
  \<^verbatim>\<open>analyze_story\<close>. The handler \<^verbatim>\<open>except Exception\<close> catches every exception of the block,
  the \<^verbatim>\<open>HTTPException\<close> of line 374 included (it derives from \<^verbatim>\<open>Exception\<close>), and answers
  with the fallback analysis; the tracker is not touched there. Stripping a string does not
  raise, so \<^verbatim>\<open>story_text\<close> is always bound when the handler runs. An exception of the handler
  itself would leave the function, which is the \<open>Inl\<close> of the result.
\<close>

definition analyze_story ::
  "pylib \<Rightarrow> http_reply \<Rightarrow> BusinessTracker \<Rightarrow> StoryRequest
     \<Rightarrow> BusinessTracker \<times> (py_exception + AnalysisResponse)" where
  "analyze_story lib reply tracker request =
     (let story_text = py_strip (req_text request)
      in case analyze_story_try lib reply tracker request story_text of
           Inr (tracker', response) \<Rightarrow> (tracker', Inr response)
         | Inl e \<Rightarrow>
            (case StoryAnalysis_init lib
                    (get_fallback_analysis story_text (req_industry request)) of
               Inl e' \<Rightarrow> (tracker, Inl e')
             | Inr analysis \<Rightarrow>
                 (tracker,
                  Inr \<lparr>resp_success = False, resp_analysis = analysis,
                       resp_engine = ''fallback'',
                       resp_industry = req_industry request,
                       resp_cost_savings = estimated_render_cost analysis\<rparr>)))"

section \<open>The scene generator\<close>

record ThreeDGenerationRequest =
  gen_analysis :: StoryAnalysis
  gen_style :: string
  gen_quality :: string

record ThreeDGenerationResponse =
  gen_success :: bool
  gen_scene_id :: string
  model_urls :: "string list"
  preview_image :: string
  interactive_viewer :: string
  format :: string
  poly_count :: int
  generation_time :: rat
  estimated_cost :: rat

definition char_positions :: "(string \<times> rat) list list" where
  "char_positions =
     [[(''x'', 0), (''y'', 0), (''z'', 0)],
      [(''x'', 3), (''y'', 0), (''z'', 2)],
      [(''x'', - 2), (''y'', 0), (''z'', 1)]]"

text \<open>
  \<^verbatim>\<open>generate_scene_composition\<close>. The string of the fresh \<^verbatim>\<open>uuid.uuid4()\<close> is an input, and
  the dict \<^verbatim>\<open>self.scene_compositions\<close> is passed and returned. The two loops over
  \<^verbatim>\<open>enumerate(...[:3])\<close> and \<^verbatim>\<open>enumerate(...[:5])\<close> append to \<^verbatim>\<open>elements\<close> in turn.
\<close>

definition generate_scene_composition ::
  "string \<Rightarrow> (string \<rightharpoonup> SceneComposition) \<Rightarrow> StoryAnalysis
     \<Rightarrow> SceneComposition \<times> (string \<rightharpoonup> SceneComposition)" where
  "generate_scene_composition uuid4 scene_compositions analysis =
     (let sid = take 8 uuid4;
          character_elements =
            map (\<lambda>(i, character).
                   \<lparr>elem_type = ''character'',
                    name = character,
                    description = ''Main character: '' @ character,
                    position = (if i < length char_positions then char_positions ! i
                                else [(''x'', 0), (''y'', 0), (''z'', 0)]),
                    scale = [(''x'', 1), (''y'', 1), (''z'', 1)]\<rparr>)
              (enumerate 0 (take 3 (characters analysis)));
          prop_elements =
            map (\<lambda>(i, obj).
                   \<lparr>elem_type = ''prop'',
                    name = obj,
                    description = ''Interactive object: '' @ obj,
                    position = [(''x'', of_nat i * 1.5 - 3), (''y'', 0),
                                (''z'', of_nat (i mod 2 * 2))],
                    scale = [(''x'', 0.5), (''y'', 0.5), (''z'', 0.5)]\<rparr>)
              (enumerate 0 (take 5 (objects analysis)));
          composition =
            \<lparr>scene_id = sid,
             elements = character_elements @ prop_elements,
             camera_angles =
               [[(''position'', [(''x'', 0), (''y'', - 5), (''z'', 3)]),
                 (''target'', [(''x'', 0), (''y'', 0), (''z'', 0)])],
                [(''position'', [(''x'', 5), (''y'', 0), (''z'', 2)]),
                 (''target'', [(''x'', 0), (''y'', 0), (''z'', 0)])]],
             lighting =
               [(''type'', PStr ''three_point''), (''mood'', PStr (mood analysis)),
                (''intensity'', PFloat 1.0)]\<rparr>
      in (composition, scene_compositions(sid \<mapsto> composition)))"

text \<open>
  \<^verbatim>\<open>generate_3d_assets\<close>, the mock: the time the call took is an input.
\<close>

definition generate_3d_assets ::
  "rat \<Rightarrow> SceneComposition \<Rightarrow> string \<Rightarrow> string \<Rightarrow> ThreeDGenerationResponse" where
  "generate_3d_assets elapsed composition style quality =
     (let sid = scene_id composition;
          urls = map (\<lambda>element. ''/api/mock-model/'' @ sid @ ''/'' @ name element)
                   (elements composition)
      in \<lparr>gen_success = True,
          gen_scene_id = sid,
          model_urls = urls,
          preview_image = ''/api/mock-preview/'' @ sid,
          interactive_viewer = ''/scene-viewer/'' @ sid,
          format = ''GLB'',
          poly_count = int (length urls) * 5000,
          generation_time = py_round elapsed 2,
          estimated_cost = 0.25 * of_nat (length urls)\<rparr>)"

text \<open>
  The endpoint \<^verbatim>\<open>/api/generate-scene\<close> on the state of the two global services. No step of
  the block raises in this model, so the handler that turns an exception into a status 500
  has no branch here.
\<close>

record app_state =
  st_tracker :: BusinessTracker
  st_scene_compositions :: "string \<rightharpoonup> SceneComposition"

definition generate_scene ::
  "string \<Rightarrow> rat \<Rightarrow> app_state \<Rightarrow> ThreeDGenerationRequest
     \<Rightarrow> app_state \<times> ThreeDGenerationResponse" where
  "generate_scene uuid4 elapsed st request =
     (let (composition, compositions) =
            generate_scene_composition uuid4 (st_scene_compositions st) (gen_analysis request);
          result = generate_3d_assets elapsed composition (gen_style request) (gen_quality request)
      in (\<lparr>st_tracker = track_generation (st_tracker st),
           st_scene_compositions = compositions\<rparr>, result))"

section \<open>The specification's algorithms\<close>



text \<open>
  The sanitizer as the specification words it. The slice runs from the first opening brace
  to the last closing brace, both included, and exists when a closing brace follows the
  first opening one.
\<close>

definition spec_slice :: "string \<Rightarrow> string option" where
  "spec_slice s =
     (let from_first = dropWhile (\<lambda>c. c \<noteq> CHR ''{'') s
      in if CHR ''}'' \<in> set from_first
         then Some (rev (dropWhile (\<lambda>c. c \<noteq> CHR ''}'') (rev from_first)))
         else None)"

definition spec_sanitize :: "pylib \<Rightarrow> string \<Rightarrow> py_exception + pyval" where
  "spec_sanitize lib raw =
     (let trimmed = py_strip raw;
          no_lead = (if startswith trimmed ''```json'' then drop (length ''```json'') trimmed
                     else trimmed);
          no_fence = (if endswith no_lead ''```''
                      then take (length no_lead - length ''```'') no_lead else no_lead)
      in case json_loads lib no_fence of
           Some v \<Rightarrow> Inr v
         | None \<Rightarrow>
            (case spec_slice no_fence of
               None \<Rightarrow> Inl JSONDecodeError
             | Some sliced \<Rightarrow>
                (case json_loads lib sliced of
                   Some v \<Rightarrow> Inr v
                 | None \<Rightarrow> Inl JSONDecodeError)))"

text \<open>
  The dict of a validated analysis (what \<^verbatim>\<open>.dict()\<close> returns for it), on which the estimator
  can be called again.
\<close>

definition analysis_dict :: "StoryAnalysis \<Rightarrow> pydict" where
  "analysis_dict a =
     [(''characters'', PList (map PStr (characters a))),
      (''setting'', PStr (setting a)),
      (''objects'', PList (map PStr (objects a))),
      (''mood'', PStr (mood a)),
      (''actions'', PList (map PStr (actions a))),
      (''complexity_score'', PFloat (complexity_score a)),
      (''estimated_render_cost'', PFloat (estimated_render_cost a))]"

section \<open>Concrete inputs\<close>

text \<open>
  Completions of the external service used as concrete inputs, and a library instance that
  agrees with \<^verbatim>\<open>json.loads\<close> on every string these inputs make the code parse: the four
  documents below parse to the values given, with or without whitespace around them, and
  the other strings consulted (a completion in prose, a refusal, a brace pair around a bare
  word) are not JSON. The instance
  applies no coercion.
\<close>

definition completion_empty :: string where
  "completion_empty = ''{}''"

definition completion_low :: string where
  \<open>completion_low =
     ''{"characters": ["fox"], "setting": "den", "objects": [], "mood": "calm", "actions": [], "complexity_score": 0}''\<close>

definition completion_high :: string where
  \<open>completion_high =
     ''{"characters": ["fox"], "setting": "den", "objects": [], "mood": "calm", "actions": [], "complexity_score": 20}''\<close>

definition completion_ok :: string where
  \<open>completion_ok =
     ''{"characters": ["hero"], "setting": "forest", "objects": ["sword"], "mood": "dark", "actions": ["walk"], "complexity_score": 4, "estimated_render_cost": 99999}''\<close>

definition fox_analysis :: "int \<Rightarrow> pydict" where
  "fox_analysis score =
     [(''characters'', PList [PStr ''fox'']),
      (''setting'', PStr ''den''),
      (''objects'', PList []),
      (''mood'', PStr ''calm''),
      (''actions'', PList []),
      (''complexity_score'', PInt score)]"

definition hero_analysis :: pydict where
  "hero_analysis =
     [(''characters'', PList [PStr ''hero'']),
      (''setting'', PStr ''forest''),
      (''objects'', PList [PStr ''sword'']),
      (''mood'', PStr ''dark''),
      (''actions'', PList [PStr ''walk'']),
      (''complexity_score'', PInt 4),
      (''estimated_render_cost'', PInt 99999)]"

definition json_whitespace :: "char \<Rightarrow> bool" where
  "json_whitespace c = (c = CHR '' '' \<or> c = CHR 0x09 \<or> c = CHR 0x0A \<or> c = CHR 0x0D)"

definition demo_loads :: "string \<Rightarrow> pyval option" where
  "demo_loads s =
     (let document = rev (dropWhile json_whitespace (rev (dropWhile json_whitespace s)))
      in if document = completion_empty then Some (PDict [])
         else if document = completion_low then Some (PDict (fox_analysis 0))
         else if document = completion_high then Some (PDict (fox_analysis 20))
         else if document = completion_ok then Some (PDict hero_analysis)
         else None)"

definition completion_fenced :: string where
  "completion_fenced = ''```json'' @ [CHR 0x0A] @ completion_ok @ [CHR 0x0A] @ ''```''"

definition completion_prose :: string where
  "completion_prose = ''Sure, here it is: {} Enjoy!''"

definition completion_refusal :: string where
  "completion_refusal = ''I cannot help with that.''"

definition completion_broken :: string where
  "completion_broken = ''{broken}''"

definition demo_lib :: pylib where
  "demo_lib = \<lparr>json_loads = demo_loads, lax_str = (\<lambda>v. None), lax_float = (\<lambda>v. None)\<rparr>"

definition reply_of :: "string \<Rightarrow> http_reply" where
  "reply_of completion = HttpResponse 200 (Some (PDict [(''response'', PStr completion)]))"

definition demo_request :: StoryRequest where
  "demo_request =
     \<lparr>req_text = ''A fox sleeps in its den.'', req_industry = ''gaming'', req_style = ''fantasy''\<rparr>"

definition empty_request :: StoryRequest where
  "empty_request = \<lparr>req_text = [], req_industry = ''gaming'', req_style = ''fantasy''\<rparr>"

text \<open>An analysis with a negative score and \<open>n\<close> characters.\<close>

definition negative_analysis :: "nat \<Rightarrow> pydict" where
  "negative_analysis n =
     [(''complexity_score'', PInt (- 5)),
      (''characters'', PList (replicate n (PStr ''extra''))),
      (''objects'', PList [])]"

text \<open>The analysis of the fallback for an industry without adjustments, after validation.\<close>

definition fallback_gaming :: StoryAnalysis where
  "fallback_gaming =
     \<lparr>characters = [''knight'', ''dragon''],
      setting = ''ancient castle courtyard'',
      objects = [''sword'', ''treasure chest'', ''magic crystal''],
      mood = ''epic and dramatic'',
      actions = [''confronting'', ''guarding'', ''observing''],
      complexity_score = 7.5,
      estimated_render_cost = 1500\<rparr>"

definition crowded_analysis :: StoryAnalysis where
  "crowded_analysis =
     \<lparr>characters = [''c0'', ''c1'', ''c2'', ''c3'', ''c4''],
      setting = ''market'',
      objects = [''p0'', ''p1'', ''p2'', ''p3'', ''p4'', ''p5'', ''p6''],
      mood = ''busy'',
      actions = [],
      complexity_score = 6,
      estimated_render_cost = 100\<rparr>"

section \<open>Rounding and the cost formula\<close>

lemma round_half_even_bounds:
  "\<lfloor>x\<rfloor> \<le> round_half_even x \<and> round_half_even x \<le> \<lfloor>x\<rfloor> + 1"
  by (simp add: round_half_even_def Let_def)

lemma round_half_even_mono:
  assumes "x \<le> y"
  shows "round_half_even x \<le> round_half_even y"
proof (cases "\<lfloor>x\<rfloor> = \<lfloor>y\<rfloor>")
  case True
  with assms show ?thesis
    by (auto simp add: round_half_even_def Let_def)
next
  case False
  with assms have "\<lfloor>x\<rfloor> < \<lfloor>y\<rfloor>"
    using floor_mono [of x y] by linarith
  with round_half_even_bounds [of x] round_half_even_bounds [of y] show ?thesis
    by linarith
qed

lemma py_round_mono: "x \<le> y \<Longrightarrow> py_round x n \<le> py_round y n"
  by (simp add: py_round_def round_half_even_mono divide_right_mono mult_right_mono)


lemma base_cost_pos: "0 < dict_get base_costs ind 3000"
  by (simp add: dict_get_def base_costs_def)

text \<open>
  The value of the estimate for an analysis whose score (5 when the key is absent) is a
  number and whose characters and objects (empty when absent) are lists.
\<close>

lemma cost_estimate_value:
  assumes "as_number (dict_get analysis ''complexity_score'' (PInt 5)) = Some c"
    and "dict_get analysis ''characters'' (PList []) = PList cs"
    and "dict_get analysis ''objects'' (PList []) = PList os"
  shows "calculate_cost_estimate analysis ind =
           Inr (py_round (of_int (dict_get base_costs ind 3000) * (c / 5)
                  * (1 + of_nat (length cs + length os) * (1 / 10)) * (2 / 10)) 2)"
  using assms by (simp add: calculate_cost_estimate_def)

lemma cost_mono_complexity:
  assumes "c1 \<le> c2"
  shows "py_round (of_int (dict_get base_costs ind 3000) * (c1 / 5)
                     * (1 + of_nat n * (1 / 10)) * (2 / 10)) 2
           \<le> py_round (of_int (dict_get base_costs ind 3000) * (c2 / 5)
                     * (1 + of_nat n * (1 / 10)) * (2 / 10)) 2"
proof (rule py_round_mono)
  have b: "(0::rat) \<le> of_int (dict_get base_costs ind 3000)"
    using base_cost_pos [of ind] by simp
  have "of_int (dict_get base_costs ind 3000) * (c1 / 5)
          \<le> of_int (dict_get base_costs ind 3000) * (c2 / 5)"
    using assms b by (intro mult_left_mono) simp_all
  then show "of_int (dict_get base_costs ind 3000) * (c1 / 5) * (1 + of_nat n * (1 / 10)) * (2 / 10)
      \<le> of_int (dict_get base_costs ind 3000) * (c2 / 5) * (1 + of_nat n * (1 / 10)) * (2 / 10)"
    by (intro mult_right_mono) simp_all
qed

lemma cost_mono_count:
  assumes "n1 \<le> n2" and "0 \<le> c"
  shows "py_round (of_int (dict_get base_costs ind 3000) * (c / 5)
                     * (1 + of_nat n1 * (1 / 10)) * (2 / 10)) 2
           \<le> py_round (of_int (dict_get base_costs ind 3000) * (c / 5)
                     * (1 + of_nat n2 * (1 / 10)) * (2 / 10)) 2"
proof (rule py_round_mono)
  have b: "(0::rat) \<le> of_int (dict_get base_costs ind 3000) * (c / 5)"
    using base_cost_pos [of ind] assms(2) by simp
  have "(1 + of_nat n1 * (1 / 10) :: rat) \<le> 1 + of_nat n2 * (1 / 10)"
    using assms(1) by simp
  then have "of_int (dict_get base_costs ind 3000) * (c / 5) * (1 + of_nat n1 * (1 / 10))
     \<le> of_int (dict_get base_costs ind 3000) * (c / 5) * (1 + of_nat n2 * (1 / 10))"
    using b by (rule mult_left_mono)
  then show "of_int (dict_get base_costs ind 3000) * (c / 5) * (1 + of_nat n1 * (1 / 10)) * (2 / 10)
      \<le> of_int (dict_get base_costs ind 3000) * (c / 5) * (1 + of_nat n2 * (1 / 10)) * (2 / 10)"
    by (intro mult_right_mono) simp_all
qed


section \<open>Validation\<close>






text \<open>The fallback analysis passes validation whatever the library's coercions are.\<close>

lemma fallback_init_plain:
  assumes "ind \<noteq> ''education''" and "ind \<noteq> ''architecture''"
  shows "StoryAnalysis_init lib (get_fallback_analysis t ind) = Inr fallback_gaming"
  using assms
  by (simp add: StoryAnalysis_init_def get_fallback_analysis_def fallback_gaming_def
      str_list_field_def str_field_def float_field_def)

lemma fallback_init_education:
  "StoryAnalysis_init lib (get_fallback_analysis t ''education'') =
     Inr (fallback_gaming\<lparr>objects := [''sword'', ''treasure chest'', ''magic crystal'',
             ''educational diagram'', ''information panel''], mood := ''informative and clear''\<rparr>)"
  by (simp add: StoryAnalysis_init_def get_fallback_analysis_def fallback_gaming_def
      str_list_field_def str_field_def float_field_def dict_set_def)

lemma fallback_init_architecture:
  "StoryAnalysis_init lib (get_fallback_analysis t ''architecture'') =
     Inr (fallback_gaming\<lparr>setting := ''modern architectural space'',
            objects := [''building model'', ''blueprint'', ''scale figure'']\<rparr>)"
  by (simp add: StoryAnalysis_init_def get_fallback_analysis_def fallback_gaming_def
      str_list_field_def str_field_def float_field_def dict_set_def)

lemma fallback_init:
  "\<exists>a. StoryAnalysis_init lib (get_fallback_analysis t ind) = Inr a
       \<and> complexity_score a = 7.5 \<and> estimated_render_cost a = 1500"
proof -
  consider "ind = ''education''" | "ind = ''architecture''"
    | "ind \<noteq> ''education''" "ind \<noteq> ''architecture''" by blast
  then show ?thesis
  proof cases
    case 1
    then show ?thesis by (simp add: fallback_init_education fallback_gaming_def)
  next
    case 2
    then show ?thesis by (simp add: fallback_init_architecture fallback_gaming_def)
  next
    case 3
    then show ?thesis by (simp add: fallback_init_plain fallback_gaming_def)
  qed
qed

section \<open>The path through the model\<close>



lemma analyze_with_llama_None:
  "analyze_with_llama lib reply t ind = None \<longleftrightarrow>
     reply = RequestFailed
     \<or> (\<exists>status body. reply = HttpResponse status body
           \<and> (status \<noteq> 200 \<or> (\<exists>e. llama_analysis lib body ind = Inl e)))"
  by (auto simp add: analyze_with_llama_def split: http_reply.splits sum.splits)


section \<open>The three ways \<^verbatim>\<open>analyze_story\<close> answers\<close>

text \<open>
  Every call answers with a response, in one of three ways: with the analysis of the model,
  with the fallback from inside the \<^verbatim>\<open>try\<close> block (both tracked, \<open>success\<close> true), or with
  the fallback from the exception handler (not tracked, \<open>success\<close> false), which is where an
  empty text and a model analysis that fails validation end.
\<close>

lemma analyze_story_cases:
  fixes lib reply tracker request
  defines "story_text \<equiv> py_strip (req_text request)"
    and "ind \<equiv> req_industry request"
  obtains
    (model) d a where
      "story_text \<noteq> []"
      "analyze_with_llama lib reply story_text ind = Some d" "d \<noteq> []"
      "StoryAnalysis_init lib d = Inr a"
      "analyze_story lib reply tracker request =
         (track_analysis tracker (estimated_render_cost a),
          Inr \<lparr>resp_success = True, resp_analysis = a, resp_engine = ''llama_enhanced'',
               resp_industry = ind, resp_cost_savings = estimated_render_cost a\<rparr>)"
  | (fallback) a where
      "story_text \<noteq> []"
      "analyze_with_llama lib reply story_text ind = None
         \<or> analyze_with_llama lib reply story_text ind = Some []"
      "StoryAnalysis_init lib (get_fallback_analysis story_text ind) = Inr a"
      "analyze_story lib reply tracker request =
         (track_analysis tracker (estimated_render_cost a),
          Inr \<lparr>resp_success = True, resp_analysis = a, resp_engine = ''fallback'',
               resp_industry = ind, resp_cost_savings = estimated_render_cost a\<rparr>)"
  | (error) a where
      "story_text = [] \<or>
         (\<exists>d e. analyze_with_llama lib reply story_text ind = Some d \<and> d \<noteq> []
            \<and> StoryAnalysis_init lib d = Inl e)"
      "StoryAnalysis_init lib (get_fallback_analysis story_text ind) = Inr a"
      "analyze_story lib reply tracker request =
         (tracker,
          Inr \<lparr>resp_success = False, resp_analysis = a, resp_engine = ''fallback'',
               resp_industry = ind, resp_cost_savings = estimated_render_cost a\<rparr>)"
proof -
  obtain fb where fb: "StoryAnalysis_init lib (get_fallback_analysis story_text ind) = Inr fb"
    using fallback_init [of lib story_text ind] by blast
  show thesis
  proof (cases "story_text = []")
    case True
    then have "analyze_story lib reply tracker request =
         (tracker,
          Inr \<lparr>resp_success = False, resp_analysis = fb, resp_engine = ''fallback'',
               resp_industry = ind, resp_cost_savings = estimated_render_cost fb\<rparr>)"
      using fb by (simp add: analyze_story_def analyze_story_try_def story_text_def ind_def)
    with True fb show thesis by (intro error) simp_all
  next
    case nonempty: False
    show thesis
    proof (cases "analyze_with_llama lib reply story_text ind")
      case None
      then have "analyze_story lib reply tracker request =
         (track_analysis tracker (estimated_render_cost fb),
          Inr \<lparr>resp_success = True, resp_analysis = fb, resp_engine = ''fallback'',
               resp_industry = ind, resp_cost_savings = estimated_render_cost fb\<rparr>)"
        using fb nonempty
        by (simp add: analyze_story_def analyze_story_try_def story_text_def ind_def)
      with None nonempty fb show thesis by (intro fallback) simp_all
    next
      case (Some d)
      show thesis
      proof (cases "d = []")
        case True
        then have "analyze_story lib reply tracker request =
           (track_analysis tracker (estimated_render_cost fb),
            Inr \<lparr>resp_success = True, resp_analysis = fb, resp_engine = ''fallback'',
                 resp_industry = ind, resp_cost_savings = estimated_render_cost fb\<rparr>)"
          using fb nonempty Some
          by (simp add: analyze_story_def analyze_story_try_def story_text_def ind_def)
        with True Some nonempty fb show thesis by (intro fallback) simp_all
      next
        case False
        show thesis
        proof (cases "StoryAnalysis_init lib d")
          case (Inl e)
          then have "analyze_story lib reply tracker request =
             (tracker,
              Inr \<lparr>resp_success = False, resp_analysis = fb, resp_engine = ''fallback'',
                   resp_industry = ind, resp_cost_savings = estimated_render_cost fb\<rparr>)"
            using fb nonempty Some False
            by (simp add: analyze_story_def analyze_story_try_def story_text_def ind_def)
          with Inl Some False fb show thesis by (intro error) simp_all
        next
          case (Inr a)
          then have "analyze_story lib reply tracker request =
             (track_analysis tracker (estimated_render_cost a),
              Inr \<lparr>resp_success = True, resp_analysis = a, resp_engine = ''llama_enhanced'',
                   resp_industry = ind, resp_cost_savings = estimated_render_cost a\<rparr>)"
            using nonempty Some False
            by (simp add: analyze_story_def analyze_story_try_def story_text_def ind_def)
          with Inr Some False nonempty show thesis by (intro model) simp_all
        qed
      qed
    qed
  qed
qed

lemma generate_scene_tracker:
  "st_tracker (fst (generate_scene uuid4 elapsed st request)) = track_generation (st_tracker st)"
  by (simp add: generate_scene_def Let_def split: prod.splits)

section \<open>The slice of the cleaning step\<close>

lemma rev_dropWhile_rev:
  "rev (dropWhile P (rev xs)) = take (length xs - length (takeWhile P (rev xs))) xs"
  by (simp add: dropWhile_eq_drop rev_drop)

lemma takeWhile_rev_drop:
  assumes "x \<in> set (drop i s)" and "\<not> P x"
  shows "takeWhile P (rev s) = takeWhile P (rev (drop i s))"
proof -
  have "rev s = rev (drop i s) @ rev (take i s)"
    by (metis append_take_drop_id rev_append)
  moreover from assms have "x \<in> set (rev (drop i s))" by simp
  ultimately show ?thesis using assms(2) by simp
qed

lemma takeWhile_shorter:
  "x \<in> set xs \<Longrightarrow> \<not> P x \<Longrightarrow> length (takeWhile P xs) < length xs"
  by (induction xs) auto

lemma nth_in_drop:
  assumes "i \<le> m" and "m < length s"
  shows "s ! m \<in> set (drop i s)"
proof -
  from assms have "drop i s ! (m - i) = s ! m" by simp
  moreover from assms have "m - i < length (drop i s)" by simp
  ultimately show ?thesis by (metis nth_mem)
qed

text \<open>The last occurrence of a character lies in a suffix that starts before it.\<close>

lemma last_occurrence_in_drop:
  assumes "c \<in> set s" and "i < length s - length (takeWhile (\<lambda>x. x \<noteq> c) (rev s))"
  shows "c \<in> set (drop i s)"
proof -
  let ?k = "length (takeWhile (\<lambda>x. x \<noteq> c) (rev s))"
  from assms(1) have k: "?k < length (rev s)"
    by (intro takeWhile_shorter [of c]) auto
  then have "\<not> (rev s ! ?k \<noteq> c)" by (rule nth_length_takeWhile)
  with k have at: "s ! (length s - Suc ?k) = c" by (simp add: rev_nth)
  from assms(2) k have "i \<le> length s - Suc ?k" "length s - Suc ?k < length s" by simp_all
  then have "s ! (length s - Suc ?k) \<in> set (drop i s)"
    by (rule nth_in_drop)
  with at show ?thesis by simp
qed

text \<open>
  The index arithmetic of lines 177 to 180 computes the slice of the specification: the test
  \<^verbatim>\<open>start >= 0 and end > start\<close> holds exactly when a closing brace follows the first opening
  one.
\<close>

lemma slice_refines:
  "(let start = py_find s CHR ''{''; end = py_rfind s CHR ''}'' + 1
    in if 0 \<le> start \<and> start < end then Some (py_slice s start end) else None)
   = spec_slice s"
proof (cases "CHR ''{'' \<in> set s")
  case False
  then have dw: "dropWhile (\<lambda>c. c \<noteq> CHR ''{'') s = []"
    by (auto simp add: dropWhile_eq_Nil_conv)
  have "spec_slice s = None" by (simp add: spec_slice_def dw)
  with False show ?thesis by (simp add: py_find_def)
next
  case open_brace: True
  let ?i = "length (takeWhile (\<lambda>c. c \<noteq> CHR ''{'') s)"
  let ?k = "length (takeWhile (\<lambda>c. c \<noteq> CHR ''}'') (rev s))"
  have from_first: "dropWhile (\<lambda>c. c \<noteq> CHR ''{'') s = drop ?i s"
    by (rule dropWhile_eq_drop)
  show ?thesis
  proof (cases "CHR ''}'' \<in> set (drop ?i s)")
    case True
    then have close_brace: "CHR ''}'' \<in> set s" by (rule in_set_dropD)
    have tw: "takeWhile (\<lambda>c. c \<noteq> CHR ''}'') (rev s)
                = takeWhile (\<lambda>c. c \<noteq> CHR ''}'') (rev (drop ?i s))"
      using True by (rule takeWhile_rev_drop) simp
    have "?k < length (rev (drop ?i s))"
      unfolding tw using True by (intro takeWhile_shorter [of "CHR ''}''"]) auto
    then have lt: "?i + ?k < length s" by simp
    then have "py_slice s (int ?i) (int (length s) - 1 - int ?k + 1)
                 = take (length s - ?i - ?k) (drop ?i s)"
      by (simp add: py_slice_def nat_diff_distrib' nat_add_distrib) (simp add: algebra_simps)
    moreover have "rev (dropWhile (\<lambda>c. c \<noteq> CHR ''}'') (rev (drop ?i s)))
                 = take (length s - ?i - ?k) (drop ?i s)"
      by (simp add: rev_dropWhile_rev tw [symmetric])
    ultimately show ?thesis
      using open_brace close_brace True lt
      by (simp add: py_find_def py_rfind_def spec_slice_def from_first)
  next
    case False
    have "\<not> (int ?i < py_rfind s CHR ''}'' + 1)"
    proof (cases "CHR ''}'' \<in> set s")
      case True
      with False last_occurrence_in_drop [of "CHR ''}''" s ?i]
      have "\<not> ?i < length s - ?k" by blast
      with True show ?thesis by (simp add: py_rfind_def)
    next
      case False
      then show ?thesis by (simp add: py_rfind_def)
    qed
    with False open_brace show ?thesis
      by (simp add: py_find_def spec_slice_def from_first)
  qed
qed

lemma clean_json_response_parsed:
  assumes "json_loads lib (remove_code_blocks (py_strip raw)) = Some v"
  shows "clean_json_response lib raw = Inr (remove_code_blocks (py_strip raw))"
  using assms by (simp add: clean_json_response_def)

lemma clean_json_response_sliced:
  assumes "json_loads lib (remove_code_blocks (py_strip raw)) = None"
  shows "clean_json_response lib raw =
           (case spec_slice (remove_code_blocks (py_strip raw)) of
              None \<Rightarrow> Inl JSONDecodeError
            | Some sliced \<Rightarrow> Inr sliced)"
proof -
  let ?t = "remove_code_blocks (py_strip raw)"
  have "clean_json_response lib raw =
      (case (let start = py_find ?t CHR ''{''; end = py_rfind ?t CHR ''}'' + 1
             in if 0 \<le> start \<and> start < end then Some (py_slice ?t start end) else None) of
         None \<Rightarrow> Inl JSONDecodeError
       | Some sliced \<Rightarrow> Inr sliced)"
    using assms by (simp add: clean_json_response_def Let_def)
  then show ?thesis by (simp only: slice_refines)
qed

lemma spec_sanitize_unfold:
  "spec_sanitize lib raw =
     (case json_loads lib (remove_code_blocks (py_strip raw)) of
        Some v \<Rightarrow> Inr v
      | None \<Rightarrow>
         (case spec_slice (remove_code_blocks (py_strip raw)) of
            None \<Rightarrow> Inl JSONDecodeError
          | Some sliced \<Rightarrow>
             (case json_loads lib sliced of
                Some v \<Rightarrow> Inr v
              | None \<Rightarrow> Inl JSONDecodeError)))"
proof -
  have l: "length ''```json'' = 7" "length ''```'' = 3" by simp_all
  show ?thesis
    unfolding spec_sanitize_def remove_code_blocks_def Let_def l ..
qed

lemma load_completion_refines: "load_completion lib raw = spec_sanitize lib raw"
proof (cases "json_loads lib (remove_code_blocks (py_strip raw))")
  case None
  then show ?thesis
    by (simp add: load_completion_def clean_json_response_sliced spec_sanitize_unfold
        split: option.splits)
next
  case (Some v)
  then show ?thesis
    by (simp add: load_completion_def clean_json_response_parsed spec_sanitize_unfold)
qed

lemma remove_code_blocks_fenced:
  "remove_code_blocks (''```json'' @ inner @ ''```'') = inner"
  by (simp add: remove_code_blocks_def startswith_def endswith_def)

lemma remove_code_blocks_plain:
  "\<not> startswith s ''```json'' \<Longrightarrow> \<not> endswith s ''```'' \<Longrightarrow> remove_code_blocks s = s"
  by (simp add: remove_code_blocks_def)

lemma dropWhile_upto:
  "c \<notin> set pre \<Longrightarrow> dropWhile (\<lambda>x. x \<noteq> c) (pre @ c # rest) = c # rest"
  by (induction pre) auto

lemma spec_slice_embedded:
  assumes "CHR ''{'' \<notin> set pre" and "CHR ''}'' \<notin> set post"
  shows "spec_slice (pre @ CHR ''{'' # mid @ CHR ''}'' # post) = Some (CHR ''{'' # mid @ [CHR ''}''])"
proof -
  have a: "dropWhile (\<lambda>c. c \<noteq> CHR ''{'') (pre @ CHR ''{'' # mid @ CHR ''}'' # post)
          = CHR ''{'' # mid @ CHR ''}'' # post"
    using assms(1) by (rule dropWhile_upto)
  have "CHR ''}'' \<notin> set (rev post)" using assms(2) by simp
  then have "dropWhile (\<lambda>c. c \<noteq> CHR ''}'') (rev post @ CHR ''}'' # rev (CHR ''{'' # mid))
          = CHR ''}'' # rev (CHR ''{'' # mid)"
    by (rule dropWhile_upto)
  then have b: "rev (dropWhile (\<lambda>c. c \<noteq> CHR ''}'') (rev (CHR ''{'' # mid @ CHR ''}'' # post)))
          = CHR ''{'' # mid @ [CHR ''}'']"
    by simp
  show ?thesis
    unfolding spec_slice_def Let_def a b by simp
qed

lemma spec_slice_no_brace:
  assumes "CHR ''{'' \<notin> set s"
  shows "spec_slice s = None"
proof -
  from assms have dw: "dropWhile (\<lambda>c. c \<noteq> CHR ''{'') s = []"
    by (auto simp add: dropWhile_eq_Nil_conv)
  show ?thesis by (simp add: spec_slice_def dw)
qed

lemma set_remove_code_blocks: "set (remove_code_blocks s) \<subseteq> set s"
  by (auto simp add: remove_code_blocks_def Let_def dest: in_set_dropD in_set_takeD)

lemma set_py_strip: "set (py_strip s) \<subseteq> set s"
proof
  fix x assume "x \<in> set (py_strip s)"
  then have "x \<in> set (dropWhile isspace (rev (dropWhile isspace s)))"
    by (simp add: py_strip_def)
  then have "x \<in> set (rev (dropWhile isspace s))" by (rule set_dropWhileD)
  then have "x \<in> set (dropWhile isspace s)" by simp
  then show "x \<in> set s" by (rule set_dropWhileD)
qed

lemma load_completion_fenced:
  assumes "py_strip raw = ''```json'' @ inner @ ''```''" and "json_loads lib inner = Some v"
  shows "load_completion lib raw = Inr v"
proof -
  have t: "remove_code_blocks (py_strip raw) = inner"
    unfolding assms(1) by (rule remove_code_blocks_fenced)
  with assms(2) have "clean_json_response lib raw = Inr inner"
    using clean_json_response_parsed [of lib raw v] by simp
  with assms(2) show ?thesis by (simp add: load_completion_def)
qed

lemma load_completion_embedded:
  assumes "py_strip raw = pre @ CHR ''{'' # mid @ CHR ''}'' # post"
    and "CHR ''{'' \<notin> set pre" and "CHR ''}'' \<notin> set post"
    and "\<not> startswith (py_strip raw) ''```json''" and "\<not> endswith (py_strip raw) ''```''"
    and "json_loads lib (py_strip raw) = None"
    and "json_loads lib (CHR ''{'' # mid @ [CHR ''}'']) = Some v"
  shows "load_completion lib raw = Inr v"
proof -
  have t: "remove_code_blocks (py_strip raw) = py_strip raw"
    using assms(4,5) by (rule remove_code_blocks_plain)
  have "spec_slice (py_strip raw) = Some (CHR ''{'' # mid @ [CHR ''}''])"
    unfolding assms(1) using assms(2,3) by (rule spec_slice_embedded)
  with assms(6) have "clean_json_response lib raw = Inr (CHR ''{'' # mid @ [CHR ''}''])"
    using clean_json_response_sliced [of lib raw] by (simp add: t)
  with assms(7) show ?thesis by (simp add: load_completion_def)
qed

lemma load_completion_no_brace:
  assumes "CHR ''{'' \<notin> set raw" and "json_loads lib (remove_code_blocks (py_strip raw)) = None"
  shows "load_completion lib raw = Inl JSONDecodeError"
proof -
  have "CHR ''{'' \<notin> set (remove_code_blocks (py_strip raw))"
    using assms(1) set_remove_code_blocks [of "py_strip raw"] set_py_strip [of raw] by blast
  then have "spec_slice (remove_code_blocks (py_strip raw)) = None"
    by (rule spec_slice_no_brace)
  with assms(2) have "clean_json_response lib raw = Inl JSONDecodeError"
    using clean_json_response_sliced [of lib raw] by simp
  then show ?thesis by (simp add: load_completion_def)
qed

lemma load_failure_falls_back:
  assumes "load_completion lib raw = Inl e"
  shows "analyze_with_llama lib (reply_of raw) story_text ind = None"
  using assms by (simp add: analyze_with_llama_def llama_analysis_def reply_of_def)

section \<open>Runs on the concrete inputs\<close>

lemma eval_ok:
  "analyze_story demo_lib (reply_of completion_ok) BusinessTracker_init demo_request =
     (\<lparr>scenes_generated = 0,
       api_calls = \<lparr>analyze = 1, generate_3d = 0, scene_view = 0\<rparr>,
       total_cost_savings = 960\<rparr>,
      Inr \<lparr>resp_success = True,
           resp_analysis =
             \<lparr>characters = [''hero''], setting = ''forest'', objects = [''sword''],
              mood = ''dark'', actions = [''walk''], complexity_score = 4,
              estimated_render_cost = 960\<rparr>,
           resp_engine = ''llama_enhanced'', resp_industry = ''gaming'',
           resp_cost_savings = 960\<rparr>)"
  by code_simp


lemma eval_high:
  "analyze_story demo_lib (reply_of completion_high) BusinessTracker_init demo_request =
     (\<lparr>scenes_generated = 0,
       api_calls = \<lparr>analyze = 1, generate_3d = 0, scene_view = 0\<rparr>,
       total_cost_savings = 4400\<rparr>,
      Inr \<lparr>resp_success = True,
           resp_analysis =
             \<lparr>characters = [''fox''], setting = ''den'', objects = [],
              mood = ''calm'', actions = [], complexity_score = 10,
              estimated_render_cost = 4400\<rparr>,
           resp_engine = ''llama_enhanced'', resp_industry = ''gaming'',
           resp_cost_savings = 4400\<rparr>)"
  by code_simp

lemma eval_empty:
  "analyze_story demo_lib (reply_of completion_empty) BusinessTracker_init demo_request =
     (BusinessTracker_init,
      Inr \<lparr>resp_success = False, resp_analysis = fallback_gaming, resp_engine = ''fallback'',
           resp_industry = ''gaming'', resp_cost_savings = 1500\<rparr>)"
  by code_simp


text \<open>
  A score of 20 is capped to 10 after the cost has been computed from 20: the cost returned
  is 4400, where the estimate of the analysis returned is 2200.
\<close>

lemma cost_before_cap_example:
  "snd (analyze_story demo_lib (reply_of completion_high) BusinessTracker_init demo_request) =
     Inr \<lparr>resp_success = True,
          resp_analysis =
            \<lparr>characters = [''fox''], setting = ''den'', objects = [],
             mood = ''calm'', actions = [], complexity_score = 10,
             estimated_render_cost = 4400\<rparr>,
          resp_engine = ''llama_enhanced'', resp_industry = ''gaming'',
          resp_cost_savings = 4400\<rparr>
   \<and> calculate_cost_estimate
        (analysis_dict \<lparr>characters = [''fox''], setting = ''den'', objects = [],
             mood = ''calm'', actions = [], complexity_score = 10,
             estimated_render_cost = 4400\<rparr>) ''gaming'' = Inr 2200"
proof -
  have "calculate_cost_estimate
        (analysis_dict \<lparr>characters = [''fox''], setting = ''den'', objects = [],
             mood = ''calm'', actions = [], complexity_score = 10,
             estimated_render_cost = 4400\<rparr>) ''gaming'' = Inr 2200"
    by code_simp
  then show ?thesis by (simp add: eval_high)
qed

section \<open>The claims\<close>

subsection \<open>C1: an empty text\<close>

text \<open>
  C1. A request whose text is empty after trimming is to be refused with the client error
  of status 400, with no fallback analysis. Line 374 raises that \<^verbatim>\<open>HTTPException\<close>, but inside
  the \<^verbatim>\<open>try\<close> block whose handler catches every \<^verbatim>\<open>Exception\<close>: for the empty text and the
  industry \<^verbatim>\<open>gaming\<close>, whatever the external service would have replied, the call returns a
  response (status 200) that carries the fallback analysis, \<open>success\<close> false and the engine
  \<^verbatim>\<open>fallback\<close>, and leaves the tracker as it was.
\<close>

theorem analyze_story_empty_text:
  "analyze_story lib reply tracker empty_request =
     (tracker,
      Inr \<lparr>resp_success = False, resp_analysis = fallback_gaming, resp_engine = ''fallback'',
           resp_industry = ''gaming'', resp_cost_savings = 1500\<rparr>)"
  by (simp add: analyze_story_def analyze_story_try_def empty_request_def py_strip_def
      fallback_init_plain) (simp add: fallback_gaming_def)

subsection \<open>C2: the cost returned\<close>




subsection \<open>C3: the score returned\<close>




subsection \<open>C4: the engine tag\<close>

text \<open>
  C4, as the code has it. Every call returns a response, never an exception. Its engine tag
  is \<^verbatim>\<open>llama_enhanced\<close> or \<^verbatim>\<open>fallback\<close>. It is \<^verbatim>\<open>llama_enhanced\<close> exactly when the text is not
  empty, the call of the model returned a non-empty analysis and that analysis, validated,
  is the one returned; otherwise it is \<^verbatim>\<open>fallback\<close> and the analysis returned is the
  validated fallback analysis. When the call of the model fails (the request raises, the
  status is not 200, or the branch for status 200 raises on an output it cannot use), the
  engine is \<^verbatim>\<open>fallback\<close>.
\<close>

theorem analyze_story_engine:
  "\<exists>resp. snd (analyze_story lib reply tracker request) = Inr resp
     \<and> (resp_engine resp = ''llama_enhanced'' \<or> resp_engine resp = ''fallback'')
     \<and> (resp_engine resp = ''llama_enhanced'' \<longleftrightarrow>
          py_strip (req_text request) \<noteq> []
          \<and> (\<exists>d. analyze_with_llama lib reply (py_strip (req_text request)) (req_industry request)
                     = Some d
                 \<and> d \<noteq> [] \<and> StoryAnalysis_init lib d = Inr (resp_analysis resp)))
     \<and> (resp_engine resp = ''fallback'' \<longrightarrow>
          StoryAnalysis_init lib
            (get_fallback_analysis (py_strip (req_text request)) (req_industry request))
            = Inr (resp_analysis resp))
     \<and> (reply = RequestFailed
          \<or> (\<exists>status body. reply = HttpResponse status body
                \<and> (status \<noteq> 200 \<or> (\<exists>e. llama_analysis lib body (req_industry request) = Inl e)))
          \<longrightarrow> resp_engine resp = ''fallback'')"
proof (cases lib reply tracker request rule: analyze_story_cases)
  case (model d a)
  from model(2) have "analyze_with_llama lib reply (py_strip (req_text request))
      (req_industry request) \<noteq> None" by simp
  with model show ?thesis
    unfolding analyze_with_llama_None by auto
next
  case (fallback a)
  then show ?thesis by auto
next
  case (error a)
  then show ?thesis by auto
qed

text \<open>
  The claim as stated names the tag of the model path \<^verbatim>\<open>model\<close>; the code returns
  \<^verbatim>\<open>llama_enhanced\<close>, which is not one of \<^verbatim>\<open>model\<close> and \<^verbatim>\<open>fallback\<close>.
\<close>

theorem analyze_story_engine_counterexample:
  "resp_engine (projr (snd
      (analyze_story demo_lib (reply_of completion_ok) BusinessTracker_init demo_request)))
     = ''llama_enhanced''
   \<and> ''llama_enhanced'' \<notin> {''model'', ''fallback''}"
  by (simp add: eval_ok)

theorem analyze_story_engine_witness:
  "resp_engine (projr (snd
      (analyze_story demo_lib RequestFailed BusinessTracker_init demo_request)))
     = ''fallback''
   \<and> resp_engine (projr (snd
        (analyze_story demo_lib (HttpResponse 503 None) BusinessTracker_init demo_request)))
     = ''fallback''
   \<and> resp_engine (projr (snd
        (analyze_story demo_lib (reply_of completion_ok) BusinessTracker_init demo_request)))
     = ''llama_enhanced''"
  using analyze_story_engine [of demo_lib RequestFailed BusinessTracker_init demo_request]
    analyze_story_engine [of demo_lib "HttpResponse 503 None" BusinessTracker_init demo_request]
  by (auto simp add: eval_ok)

subsection \<open>C5: the sanitizer\<close>

text \<open>
  C5, as the code has it. For every completion, \<^verbatim>\<open>_clean_json_response\<close> trims it, removes a
  leading fence with the tag \<^verbatim>\<open>json\<close> and a trailing fence, each when present, and returns the
  result if it parses; otherwise it returns the slice from the first opening brace to the
  last closing brace as it is, without parsing it, and re-raises the parse error when there
  is no such slice. The second parse is the caller's, on line 144 and inside the \<^verbatim>\<open>try\<close> block
  of \<^verbatim>\<open>analyze_with_llama\<close>; cleaning followed by that parse computes the algorithm of the
  specification. Consequently a completion whose trimmed text is a fenced block around a
  document that parses gives that document's value; prose around one object, itself not
  JSON, gives the object's value; and a completion without an opening brace that does not
  parse raises, so that \<^verbatim>\<open>analyze_with_llama\<close> returns \<^verbatim>\<open>None\<close> and the fallback is used.
\<close>

theorem sanitize_algorithm:
  "clean_json_response lib raw =
     (case json_loads lib (remove_code_blocks (py_strip raw)) of
        Some parsed \<Rightarrow> Inr (remove_code_blocks (py_strip raw))
      | None \<Rightarrow>
         (case spec_slice (remove_code_blocks (py_strip raw)) of
            None \<Rightarrow> Inl JSONDecodeError
          | Some sliced \<Rightarrow> Inr sliced))
   \<and> load_completion lib raw = spec_sanitize lib raw
   \<and> (py_strip raw = ''```json'' @ inner @ ''```'' \<and> json_loads lib inner = Some v
        \<longrightarrow> load_completion lib raw = Inr v)
   \<and> (py_strip raw = pre @ CHR ''{'' # mid @ CHR ''}'' # post
        \<and> CHR ''{'' \<notin> set pre \<and> CHR ''}'' \<notin> set post
        \<and> \<not> startswith (py_strip raw) ''```json'' \<and> \<not> endswith (py_strip raw) ''```''
        \<and> json_loads lib (py_strip raw) = None
        \<and> json_loads lib (CHR ''{'' # mid @ [CHR ''}'']) = Some w
        \<longrightarrow> load_completion lib raw = Inr w)
   \<and> (CHR ''{'' \<notin> set raw \<and> json_loads lib (remove_code_blocks (py_strip raw)) = None
        \<longrightarrow> load_completion lib raw = Inl JSONDecodeError
          \<and> analyze_with_llama lib (reply_of raw) story_text ind = None)"
proof -
  have "clean_json_response lib raw =
     (case json_loads lib (remove_code_blocks (py_strip raw)) of
        Some parsed \<Rightarrow> Inr (remove_code_blocks (py_strip raw))
      | None \<Rightarrow>
         (case spec_slice (remove_code_blocks (py_strip raw)) of
            None \<Rightarrow> Inl JSONDecodeError
          | Some sliced \<Rightarrow> Inr sliced))"
    using clean_json_response_parsed [of lib raw] clean_json_response_sliced [of lib raw]
    by (cases "json_loads lib (remove_code_blocks (py_strip raw))") simp_all
  with load_completion_refines [of lib raw]
    load_completion_fenced [of raw inner lib v]
    load_completion_embedded [of raw pre mid post lib w]
    load_completion_no_brace [of raw lib]
    load_failure_falls_back [of lib raw JSONDecodeError story_text ind]
  show ?thesis by blast
qed

text \<open>
  The claim as stated fails where the slice does not parse: for a brace pair around a bare
  word the function returns that string, which does not parse, and signals nothing.
\<close>

theorem sanitize_algorithm_counterexample:
  "clean_json_response demo_lib completion_broken = Inr completion_broken
   \<and> json_loads demo_lib completion_broken = None"
  by code_simp

theorem sanitize_algorithm_witness:
  "load_completion demo_lib completion_fenced = Inr (PDict hero_analysis)
   \<and> load_completion demo_lib completion_prose = Inr (PDict [])
   \<and> load_completion demo_lib completion_refusal = Inl JSONDecodeError
   \<and> analyze_with_llama demo_lib (reply_of completion_refusal) ''A fox'' ''gaming'' = None"
proof -
  have fenced: "py_strip completion_fenced
        = ''```json'' @ ([CHR 0x0A] @ completion_ok @ [CHR 0x0A]) @ ''```''
      \<and> json_loads demo_lib ([CHR 0x0A] @ completion_ok @ [CHR 0x0A]) = Some (PDict hero_analysis)"
    by code_simp
  have prose: "py_strip completion_prose
        = ''Sure, here it is: '' @ CHR ''{'' # [] @ CHR ''}'' # '' Enjoy!''
      \<and> CHR ''{'' \<notin> set ''Sure, here it is: '' \<and> CHR ''}'' \<notin> set '' Enjoy!''
      \<and> \<not> startswith (py_strip completion_prose) ''```json''
      \<and> \<not> endswith (py_strip completion_prose) ''```''
      \<and> json_loads demo_lib (py_strip completion_prose) = None
      \<and> json_loads demo_lib (CHR ''{'' # [] @ [CHR ''}'']) = Some (PDict [])"
    by code_simp
  have refusal: "CHR ''{'' \<notin> set completion_refusal
      \<and> json_loads demo_lib (remove_code_blocks (py_strip completion_refusal)) = None"
    by code_simp
  from
    sanitize_algorithm [of demo_lib completion_fenced "[CHR 0x0A] @ completion_ok @ [CHR 0x0A]"
      "PDict hero_analysis" "[]" "[]" "[]" PNone "''A fox''" "''gaming''"]
    sanitize_algorithm [of demo_lib completion_prose "[]" PNone "''Sure, here it is: ''" "[]"
      "'' Enjoy!''" "PDict []" "''A fox''" "''gaming''"]
    sanitize_algorithm [of demo_lib completion_refusal "[]" PNone "[]" "[]" "[]" PNone
      "''A fox''" "''gaming''"]
    fenced prose refusal
  show ?thesis by blast
qed

subsection \<open>C6: the cost formula\<close>



subsection \<open>C7: determinism and monotonicity of the cost\<close>

text \<open>
  C7, as the code has it. For two analyses whose scores are numbers and whose characters and
  objects are lists, and one industry, both estimates exist and: they are equal when the
  scores and the combined counts are equal; with equal combined counts, the estimate does
  not decrease when the score grows; and with equal scores that are not negative, the
  estimate does not decrease when the combined count grows.
\<close>

theorem cost_estimate_monotone:
  assumes "as_number (dict_get a1 ''complexity_score'' (PInt 5)) = Some c1"
    and "dict_get a1 ''characters'' (PList []) = PList xs1"
    and "dict_get a1 ''objects'' (PList []) = PList ys1"
    and "as_number (dict_get a2 ''complexity_score'' (PInt 5)) = Some c2"
    and "dict_get a2 ''characters'' (PList []) = PList xs2"
    and "dict_get a2 ''objects'' (PList []) = PList ys2"
  shows "\<exists>k1 k2. calculate_cost_estimate a1 ind = Inr k1
           \<and> calculate_cost_estimate a2 ind = Inr k2
           \<and> (c1 = c2 \<and> length xs1 + length ys1 = length xs2 + length ys2 \<longrightarrow> k1 = k2)
           \<and> (c1 \<le> c2 \<and> length xs1 + length ys1 = length xs2 + length ys2 \<longrightarrow> k1 \<le> k2)
           \<and> (c1 = c2 \<and> 0 \<le> c1 \<and> length xs1 + length ys1 \<le> length xs2 + length ys2
                \<longrightarrow> k1 \<le> k2)"
proof -
  let ?cost = "\<lambda>c n. py_round (of_int (dict_get base_costs ind 3000) * (c / 5)
                  * (1 + of_nat n * (1 / 10)) * (2 / 10)) 2"
  let ?n1 = "length xs1 + length ys1" and ?n2 = "length xs2 + length ys2"
  have k1: "calculate_cost_estimate a1 ind = Inr (?cost c1 ?n1)"
    using assms(1-3) by (rule cost_estimate_value)
  have k2: "calculate_cost_estimate a2 ind = Inr (?cost c2 ?n2)"
    using assms(4-6) by (rule cost_estimate_value)
  have "c1 = c2 \<and> ?n1 = ?n2 \<longrightarrow> ?cost c1 ?n1 = ?cost c2 ?n2"
    by (auto simp only:)
  moreover have "c1 \<le> c2 \<and> ?n1 = ?n2 \<longrightarrow> ?cost c1 ?n1 \<le> ?cost c2 ?n2"
    using cost_mono_complexity [of c1 c2 ind ?n2] by (auto simp only:)
  moreover have "c1 = c2 \<and> 0 \<le> c1 \<and> ?n1 \<le> ?n2 \<longrightarrow> ?cost c1 ?n1 \<le> ?cost c2 ?n2"
    using cost_mono_count [of ?n1 ?n2 c2 ind] by (auto simp only:)
  ultimately show ?thesis
    unfolding k1 k2 by blast
qed

text \<open>
  The claim as stated fails for a negative score, which the estimator accepts (it runs
  before the score is capped, and nothing bounds the score from below): with the score
  \<open>-5\<close> the estimate for \<^verbatim>\<open>gaming\<close> is \<open>-1000\<close> without characters and \<open>-2000\<close> with ten.
\<close>

theorem cost_estimate_monotone_counterexample:
  "calculate_cost_estimate (negative_analysis 0) ''gaming'' = Inr (- 1000)
   \<and> calculate_cost_estimate (negative_analysis 10) ''gaming'' = Inr (- 2000)
   \<and> \<not> (- 1000 :: rat) \<le> - 2000"
  by code_simp

theorem cost_estimate_monotone_witness:
  "(\<exists>k1 k2. calculate_cost_estimate (fox_analysis 4) ''gaming'' = Inr k1
      \<and> calculate_cost_estimate hero_analysis ''gaming'' = Inr k2 \<and> k1 \<le> k2)
   \<and> (0::rat) \<le> 4 \<and> (1::nat) \<le> 2"
proof -
  have "as_number (dict_get hero_analysis ''complexity_score'' (PInt 5)) = Some 4"
    and "dict_get hero_analysis ''characters'' (PList []) = PList [PStr ''hero'']"
    and "dict_get hero_analysis ''objects'' (PList []) = PList [PStr ''sword'']"
    and "as_number (dict_get (fox_analysis 4) ''complexity_score'' (PInt 5)) = Some 4"
    and "dict_get (fox_analysis 4) ''characters'' (PList []) = PList [PStr ''fox'']"
    and "dict_get (fox_analysis 4) ''objects'' (PList []) = PList []"
    by (simp_all add: hero_analysis_def fox_analysis_def dict_get_def)
  from cost_estimate_monotone [OF this(4-6) this(1-3), of "''gaming''"]
  show ?thesis by auto
qed

subsection \<open>C8: the layout of a scene\<close>

text \<open>
  C8. For an analysis with at least three characters and at least five objects, the
  elements of the composition are exactly eight: the first three characters, in order, at
  the three preset coordinates \<open>(0, 0, 0)\<close>, \<open>(3, 0, 2)\<close> and \<open>(-2, 0, 1)\<close>, followed by the
  first five objects as props, the prop of index \<open>i\<close> at \<open>x = i \<times> 1.5 - 3\<close>, \<open>y = 0\<close> and
  \<open>z = (i mod 2) \<times> 2\<close>. The characters and objects beyond these are dropped, and the function
  returns for every such analysis.
\<close>

theorem compose_layout:
  assumes "characters analysis = c0 # c1 # c2 # more_characters"
    and "objects analysis = p0 # p1 # p2 # p3 # p4 # more_objects"
  shows "elements (fst (generate_scene_composition uuid4 compositions analysis)) =
     [\<lparr>elem_type = ''character'', name = c0, description = ''Main character: '' @ c0,
       position = [(''x'', 0), (''y'', 0), (''z'', 0)],
       scale = [(''x'', 1), (''y'', 1), (''z'', 1)]\<rparr>,
      \<lparr>elem_type = ''character'', name = c1, description = ''Main character: '' @ c1,
       position = [(''x'', 3), (''y'', 0), (''z'', 2)],
       scale = [(''x'', 1), (''y'', 1), (''z'', 1)]\<rparr>,
      \<lparr>elem_type = ''character'', name = c2, description = ''Main character: '' @ c2,
       position = [(''x'', - 2), (''y'', 0), (''z'', 1)],
       scale = [(''x'', 1), (''y'', 1), (''z'', 1)]\<rparr>]
     @ map (\<lambda>(i, p).
          \<lparr>elem_type = ''prop'', name = p, description = ''Interactive object: '' @ p,
           position = [(''x'', of_nat i * 1.5 - 3), (''y'', 0), (''z'', of_nat (i mod 2) * 2)],
           scale = [(''x'', 0.5), (''y'', 0.5), (''z'', 0.5)]\<rparr>)
         [(0, p0), (1, p1), (2, p2), (3, p3), (4, p4)]
   \<and> length (filter (\<lambda>e. elem_type e = ''character'')
        (elements (fst (generate_scene_composition uuid4 compositions analysis)))) = 3
   \<and> length (filter (\<lambda>e. elem_type e = ''prop'')
        (elements (fst (generate_scene_composition uuid4 compositions analysis)))) = 5"
  using assms
  by (simp add: generate_scene_composition_def Let_def char_positions_def)

theorem compose_layout_witness:
  "elements (fst (generate_scene_composition ''0f8fad5b-d9cb-469f-a165-70867728950e'' Map.empty
      crowded_analysis)) =
     [\<lparr>elem_type = ''character'', name = ''c0'', description = ''Main character: c0'',
       position = [(''x'', 0), (''y'', 0), (''z'', 0)],
       scale = [(''x'', 1), (''y'', 1), (''z'', 1)]\<rparr>,
      \<lparr>elem_type = ''character'', name = ''c1'', description = ''Main character: c1'',
       position = [(''x'', 3), (''y'', 0), (''z'', 2)],
       scale = [(''x'', 1), (''y'', 1), (''z'', 1)]\<rparr>,
      \<lparr>elem_type = ''character'', name = ''c2'', description = ''Main character: c2'',
       position = [(''x'', - 2), (''y'', 0), (''z'', 1)],
       scale = [(''x'', 1), (''y'', 1), (''z'', 1)]\<rparr>,
      \<lparr>elem_type = ''prop'', name = ''p0'', description = ''Interactive object: p0'',
       position = [(''x'', - 3), (''y'', 0), (''z'', 0)],
       scale = [(''x'', 0.5), (''y'', 0.5), (''z'', 0.5)]\<rparr>,
      \<lparr>elem_type = ''prop'', name = ''p1'', description = ''Interactive object: p1'',
       position = [(''x'', - 1.5), (''y'', 0), (''z'', 2)],
       scale = [(''x'', 0.5), (''y'', 0.5), (''z'', 0.5)]\<rparr>,
      \<lparr>elem_type = ''prop'', name = ''p2'', description = ''Interactive object: p2'',
       position = [(''x'', 0), (''y'', 0), (''z'', 0)],
       scale = [(''x'', 0.5), (''y'', 0.5), (''z'', 0.5)]\<rparr>,
      \<lparr>elem_type = ''prop'', name = ''p3'', description = ''Interactive object: p3'',
       position = [(''x'', 1.5), (''y'', 0), (''z'', 2)],
       scale = [(''x'', 0.5), (''y'', 0.5), (''z'', 0.5)]\<rparr>,
      \<lparr>elem_type = ''prop'', name = ''p4'', description = ''Interactive object: p4'',
       position = [(''x'', 3), (''y'', 0), (''z'', 0)],
       scale = [(''x'', 0.5), (''y'', 0.5), (''z'', 0.5)]\<rparr>]"
proof -
  have "characters crowded_analysis = ''c0'' # ''c1'' # ''c2'' # [''c3'', ''c4'']"
    and "objects crowded_analysis = ''p0'' # ''p1'' # ''p2'' # ''p3'' # ''p4'' # [''p5'', ''p6'']"
    by (simp_all add: crowded_analysis_def)
  from compose_layout [OF this, of "''0f8fad5b-d9cb-469f-a165-70867728950e''" Map.empty]
  show ?thesis by simp
qed

subsection \<open>C9: the tracker\<close>

text \<open>
  C9, as the code has it. Every call of \<^verbatim>\<open>analyze_story\<close> returns a response. When its
  \<open>success\<close> is true, which is when the text is not empty and the analysis of the model, if
  there is one, passes validation, the tracker has been notified exactly once with the cost
  returned: the counter \<^verbatim>\<open>analyze\<close> is one higher, the cumulative savings are higher by that
  cost, and the other counters are unchanged. When \<open>success\<close> is false, the response comes
  from the exception handler and the tracker is unchanged. Every call of \<^verbatim>\<open>generate_scene\<close>
  raises the counter \<^verbatim>\<open>generate_3d\<close> and the number of scenes generated by one each and leaves
  the rest of the tracker unchanged.
\<close>

theorem tracker_notified:
  "(\<exists>resp. analyze_story lib reply tracker request =
        (if resp_success resp
         then track_analysis tracker (estimated_render_cost (resp_analysis resp))
         else tracker, Inr resp)
      \<and> (resp_success resp \<longleftrightarrow>
           py_strip (req_text request) \<noteq> []
           \<and> (\<forall>d. analyze_with_llama lib reply (py_strip (req_text request)) (req_industry request)
                     = Some d \<and> d \<noteq> []
                 \<longrightarrow> StoryAnalysis_init lib d = Inr (resp_analysis resp))))
   \<and> analyze (api_calls (track_analysis tracker cost)) = analyze (api_calls tracker) + 1
   \<and> total_cost_savings (track_analysis tracker cost) = total_cost_savings tracker + cost
   \<and> generate_3d (api_calls (track_analysis tracker cost)) = generate_3d (api_calls tracker)
   \<and> scenes_generated (track_analysis tracker cost) = scenes_generated tracker
   \<and> generate_3d (api_calls (st_tracker (fst (generate_scene uuid4 elapsed st gen_request))))
        = generate_3d (api_calls (st_tracker st)) + 1
   \<and> scenes_generated (st_tracker (fst (generate_scene uuid4 elapsed st gen_request)))
        = scenes_generated (st_tracker st) + 1
   \<and> analyze (api_calls (st_tracker (fst (generate_scene uuid4 elapsed st gen_request))))
        = analyze (api_calls (st_tracker st))
   \<and> total_cost_savings (st_tracker (fst (generate_scene uuid4 elapsed st gen_request)))
        = total_cost_savings (st_tracker st)"
proof -
  have "\<exists>resp. analyze_story lib reply tracker request =
        (if resp_success resp
         then track_analysis tracker (estimated_render_cost (resp_analysis resp))
         else tracker, Inr resp)
      \<and> (resp_success resp \<longleftrightarrow>
           py_strip (req_text request) \<noteq> []
           \<and> (\<forall>d. analyze_with_llama lib reply (py_strip (req_text request)) (req_industry request)
                     = Some d \<and> d \<noteq> []
                 \<longrightarrow> StoryAnalysis_init lib d = Inr (resp_analysis resp)))"
  proof (cases lib reply tracker request rule: analyze_story_cases)
    case (model d a)
    then show ?thesis by auto
  next
    case (fallback a)
    then show ?thesis by auto
  next
    case (error a)
    then show ?thesis by auto
  qed
  then show ?thesis
    by (simp add: generate_scene_tracker) (simp add: track_analysis_def track_generation_def)
qed

text \<open>
  The claim as stated fails on the path through the exception handler: a completion that
  parses to an object without the required fields is answered with the fallback analysis,
  and the tracker is not notified.
\<close>

theorem tracker_notified_counterexample:
  "analyze_story demo_lib (reply_of completion_empty) BusinessTracker_init demo_request =
     (BusinessTracker_init,
      Inr \<lparr>resp_success = False, resp_analysis = fallback_gaming, resp_engine = ''fallback'',
           resp_industry = ''gaming'', resp_cost_savings = 1500\<rparr>)
   \<and> analyze (api_calls (fst
        (analyze_story demo_lib (reply_of completion_empty) BusinessTracker_init demo_request)))
      \<noteq> analyze (api_calls BusinessTracker_init) + 1"
  by (simp add: eval_empty)

theorem tracker_notified_witness:
  "fst (analyze_story demo_lib (reply_of completion_ok) BusinessTracker_init demo_request) =
     \<lparr>scenes_generated = 0,
      api_calls = \<lparr>analyze = 1, generate_3d = 0, scene_view = 0\<rparr>,
      total_cost_savings = 960\<rparr>
   \<and> fst (analyze_story demo_lib (reply_of completion_empty) BusinessTracker_init demo_request) =
     BusinessTracker_init"
  using tracker_notified [of demo_lib "reply_of completion_ok" BusinessTracker_init demo_request]
    tracker_notified [of demo_lib "reply_of completion_empty" BusinessTracker_init demo_request]
  by (simp add: eval_ok eval_empty)

subsection \<open>C10: the metrics\<close>

text \<open>
  C10, as the code has it. \<^verbatim>\<open>get_metrics\<close> never divides by zero: it returns, for every state
  of the tracker, the metrics whose average per scene is the cumulative savings divided by
  \<open>max(1, scenes generated)\<close>, a divisor of at least 1, rounded to two decimal places. With
  no scene generated the average is therefore the rounded cumulative savings themselves,
  which is 0 in the initial state.
\<close>

theorem get_metrics_total:
  "get_metrics tracker =
     Inr \<lparr>total_scenes_generated = scenes_generated tracker,
          api_usage = api_calls tracker,
          cost_savings =
            [(''total_saved'', py_round (total_cost_savings tracker) 2),
             (''average_per_scene'',
              py_round (total_cost_savings tracker / of_int (max 1 (scenes_generated tracker))) 2)]\<rparr>
   \<and> 1 \<le> max 1 (scenes_generated tracker)
   \<and> (scenes_generated tracker = 0 \<longrightarrow>
        map_of (cost_savings (projr (get_metrics tracker))) ''average_per_scene''
          = Some (py_round (total_cost_savings tracker) 2))
   \<and> map_of (cost_savings (projr (get_metrics BusinessTracker_init))) ''average_per_scene'' = Some 0"
proof -
  have nz: "(of_int (max 1 (scenes_generated tracker)) :: rat) \<noteq> 0"
    by (simp add: max_def)
  have g: "get_metrics tracker =
     Inr \<lparr>total_scenes_generated = scenes_generated tracker,
          api_usage = api_calls tracker,
          cost_savings =
            [(''total_saved'', py_round (total_cost_savings tracker) 2),
             (''average_per_scene'',
              py_round (total_cost_savings tracker / of_int (max 1 (scenes_generated tracker))) 2)]\<rparr>"
    using nz by (simp add: get_metrics_def py_truediv_def)
  have i: "map_of (cost_savings (projr (get_metrics BusinessTracker_init))) ''average_per_scene''
             = Some 0"
    by (simp add: get_metrics_def py_truediv_def BusinessTracker_init_def py_round_def
        round_half_even_def)
  show ?thesis
    by (simp add: g i)
qed

text \<open>
  The claim as stated fails for a state without scenes in which an analysis has been
  tracked: after one analysis with the cost 1500 the average reported is 1500, not 0.
\<close>

theorem get_metrics_counterexample:
  "get_metrics (track_analysis BusinessTracker_init 1500) =
     Inr \<lparr>total_scenes_generated = 0,
          api_usage = \<lparr>analyze = 1, generate_3d = 0, scene_view = 0\<rparr>,
          cost_savings = [(''total_saved'', 1500), (''average_per_scene'', 1500)]\<rparr>
   \<and> scenes_generated (track_analysis BusinessTracker_init 1500) = 0"
  by code_simp

theorem get_metrics_total_witness:
  "scenes_generated (track_analysis BusinessTracker_init 1500) = 0
   \<and> map_of (cost_savings (projr (get_metrics (track_analysis BusinessTracker_init 1500))))
        ''average_per_scene'' = Some 1500"
proof -
  have z: "scenes_generated (track_analysis BusinessTracker_init 1500) = 0"
    by (simp add: track_analysis_def BusinessTracker_init_def)
  have r: "py_round (total_cost_savings (track_analysis BusinessTracker_init 1500)) 2 = 1500"
    by code_simp
  from get_metrics_total [of "track_analysis BusinessTracker_init 1500"] z r
  show ?thesis by simp
qed

end
